theory Spec2Isabelle
  imports Complex_Main "HOL-Library.Multiset"
begin

section \<open>Strided PSD spectrograms (gwpy/spectrogram/spectrogram.py)\<close>

text \<open>
  The module builds a time-frequency spectrogram from a time series: one power spectral
  density per stride, stacked in time (\<open>_from_timeseries\<close>), and a wrapper that
  splits the series over worker processes and merges their partial spectrograms
  (\<open>from_timeseries\<close>).

  Numbers. Strides, FFT lengths, sample rates, epochs and sample values are Python
  floats in the source; the model computes with exact rationals, so every statement
  below is about the arithmetic the source writes down, free of rounding.
  Sizes, step counts and process counts are Python integers (\<open>int\<close>).
\<close>

subsection \<open>Python arithmetic and errors\<close>

text \<open>
  What a run can end in other than a result: \<open>ZeroDivisionError\<close> and \<open>ValueError\<close>
  from the module's own arithmetic and from numpy (a negative array dimension, a row of
  the wrong length), \<open>PsdError\<close> for an exception of \<open>psd\<close>, and \<open>Hang\<close> for the
  coordinator waiting forever on its result queue.
\<close>

datatype error =
    ZeroDivisionError
  | ValueError
  | PsdError
  | Hang

text \<open>\<open>int(x)\<close> on a float: truncation toward zero.\<close>

definition py_int :: "rat \<Rightarrow> int" where
  "py_int x = (if 0 \<le> x then \<lfloor>x\<rfloor> else \<lceil>x\<rceil>)"

text \<open>A slice bound of a sequence of length \<open>n\<close>: negative bounds count from the end,
  and every bound is clipped to the sequence.\<close>

definition py_index :: "nat \<Rightarrow> int \<Rightarrow> nat" where
  "py_index n k = (if k < 0 then nat (int n + k) else min n (nat k))"

subsection \<open>Data model\<close>

record 'u timeseries =
  ts_data :: "rat list"
  ts_sample_rate :: rat
  ts_epoch :: rat
  ts_unit :: 'u
  ts_channel :: string
  ts_dtype :: string

text \<open>
  A Spectrogram is a 2-D array of shape \<open>(length sg_data, sg_nfreqs)\<close> with its
  metadata. \<open>sg_unit\<close> is \<open>None\<close> as long as the code has not assigned a unit.
\<close>

record 'u spectrogram =
  sg_data :: "rat list list"
  sg_nfreqs :: nat
  sg_channel :: string
  sg_epoch :: rat
  sg_f0 :: rat
  sg_df :: rat
  sg_dt :: rat
  sg_unit :: "'u option"

text \<open>
  The collaborators the module calls and that live outside it, taken as parameters:
  \<^item> \<open>psd\<close>: \<open>TimeSeries.psd(fftlength, fftstride, method, window=, plan=)\<close>, giving
    the \<open>.data\<close> of the spectrum, or raising;
  \<^item> \<open>per_hertz\<close>: \<open>unit / units.Hertz\<close>, \<open>None\<close> when the division raises KeyError;
  \<^item> \<open>inv_hertz\<close>: \<open>1 / units.Hertz\<close>;
  \<^item> \<open>lal\<close>: \<open>None\<close> when \<open>from lal import lal\<close> raises ImportError, otherwise
    \<open>psd.generate_lal_window\<close> and \<open>psd.generate_lal_fft_plan\<close>, each called with
    \<open>nFFT\<close> and the series' dtype.
\<close>

record ('u, 'w, 'p) collab =
  psd :: "'u timeseries \<Rightarrow> rat \<Rightarrow> rat \<Rightarrow> string \<Rightarrow> 'w option \<Rightarrow> 'p option \<Rightarrow> error + rat list"
  per_hertz :: "'u \<Rightarrow> 'u option"
  inv_hertz :: 'u
  lal :: "((int \<Rightarrow> string \<Rightarrow> 'w) \<times> (int \<Rightarrow> string \<Rightarrow> 'p)) option"

text \<open>
  Modelled from the spec: \<open>TimeSeries.__getitem__\<close> on a slice (gwpy/timeseries/core.py
  is not among the sources). The spec gives a TimeSeries an epoch that is its start
  timestamp and "view slicing by index range": the slice holds the samples of the index
  range, clipped to the series as Python slices are, and starts at the time of its first
  index. The bounds the module passes are floats; they are truncated to indices.
\<close>

definition getslice :: "'u timeseries \<Rightarrow> rat \<Rightarrow> rat \<Rightarrow> 'u timeseries" where
  "getslice ts a b =
     (let n = length (ts_data ts);
          i = py_index n (py_int a);
          j = py_index n (py_int b)
      in ts\<lparr>ts_data := drop i (take j (ts_data ts)),
            ts_epoch := ts_epoch ts + of_int (py_int a) / ts_sample_rate ts\<rparr>)"

text \<open>
  Modelled from the spec: \<open>SpectrogramList.join\<close> (gwpy/spectrogram/core.py is not among
  the sources). The spec merges the partial Spectrograms, already sorted on epoch, by
  concatenating their rows; the merged Spectrogram starts where the first one does.
\<close>

definition join :: "'u spectrogram list \<Rightarrow> 'u spectrogram" where
  "join specs = (hd specs)\<lparr>sg_data := concat (map sg_data specs)\<rparr>"

subsection \<open>The single-process builder\<close>

text \<open>\<open>out[step] = steppsd.data\<close> on a row of \<open>nfreqs\<close> columns: numpy takes data of
  that length, broadcasts a single value, and raises ValueError otherwise.\<close>

definition setitem_row :: "nat \<Rightarrow> rat list \<Rightarrow> error + rat list" where
  "setitem_row nfreqs d =
     (if length d = nfreqs then Inr d
      else if length d = 1 then Inr (replicate nfreqs (hd d))
      else Inl ValueError)"

text \<open>The body of the loop up to the row it stores; \<open>stride\<close> is in samples here.\<close>

definition step_row ::
  "('u, 'w, 'p) collab \<Rightarrow> 'u timeseries \<Rightarrow> rat \<Rightarrow> rat \<Rightarrow> rat \<Rightarrow> string \<Rightarrow>
   'w option \<Rightarrow> 'p option \<Rightarrow> nat \<Rightarrow> nat \<Rightarrow> error + rat list" where
  "step_row C timeseries stride fftlength fftstride method window plan nfreqs step =
     (let idx = stride * of_nat step;
          idx_end = idx + stride;
          stepseries = getslice timeseries idx idx_end
      in case psd C stepseries fftlength fftstride method window plan of
           Inl e \<Rightarrow> Inl e
         | Inr d \<Rightarrow> setitem_row nfreqs d)"

text \<open>\<open>for step in range(nsteps): ... out[step] = ...\<close>; an exception ends the loop.\<close>

fun stride_loop ::
  "(nat \<Rightarrow> error + rat list) \<Rightarrow> nat list \<Rightarrow> rat list list \<Rightarrow> error + rat list list" where
  "stride_loop row [] out = Inr out"
| "stride_loop row (step # steps) out =
     (case row step of
        Inl e \<Rightarrow> Inl e
      | Inr r \<Rightarrow> stride_loop row steps (out[step := r]))"

text \<open>\<open>_from_timeseries\<close> (a name cannot start with an underscore here).\<close>

definition private_from_timeseries ::
  "('u, 'w, 'p) collab \<Rightarrow> 'u timeseries \<Rightarrow> rat \<Rightarrow> rat option \<Rightarrow> rat option \<Rightarrow> string \<Rightarrow>
   'w option \<Rightarrow> 'p option \<Rightarrow> error + 'u spectrogram" where
  "private_from_timeseries C timeseries stride fftlength fftstride method window plan =
     (let fftlength' = (case fftlength of None \<Rightarrow> stride | Some f \<Rightarrow> f);
          fftstride' = (case fftstride of None \<Rightarrow> fftlength' | Some f \<Rightarrow> f);
          dt = stride
      in if fftlength' = 0 then Inl ZeroDivisionError
         else
           let df = 1 / fftlength';
               stride' = stride * ts_sample_rate timeseries
           in if stride' = 0 then Inl ZeroDivisionError
              else
                let nsteps = \<lfloor>of_nat (length (ts_data timeseries)) / stride'\<rfloor>;
                    nfreqs = \<lfloor>fftlength' * ts_sample_rate timeseries / 2\<rfloor> + 1
                in if nsteps < 0 \<or> nfreqs < 0 then Inl ValueError
                   else
                     let out = \<lparr>sg_data = replicate (nat nsteps) (replicate (nat nfreqs) 0),
                                sg_nfreqs = nat nfreqs,
                                sg_channel = ts_channel timeseries,
                                sg_epoch = ts_epoch timeseries,
                                sg_f0 = 0, sg_df = df, sg_dt = dt,
                                sg_unit = None\<rparr>
                     in if nsteps = 0 then Inr out
                        else
                          case stride_loop
                                 (step_row C timeseries stride' fftlength' fftstride' method
                                    window plan (nat nfreqs))
                                 [0..<nat nsteps] (sg_data out) of
                            Inl e \<Rightarrow> Inl e
                          | Inr rows \<Rightarrow>
                              Inr (out\<lparr>sg_data := rows,
                                       sg_unit := Some (case per_hertz C (ts_unit timeseries) of
                                                          None \<Rightarrow> inv_hertz C
                                                        | Some u \<Rightarrow> u)\<rparr>))"

subsection \<open>The parallel dispatch wrapper\<close>

text \<open>\<open>nproc = max(1, int(nsteps // minprocesssize))\<close>, for a \<open>minprocesssize\<close> that is
  not zero.\<close>

definition nproc :: "int \<Rightarrow> int \<Rightarrow> int" where
  "nproc nsteps minprocesssize = max 1 (nsteps div minprocesssize)"

text \<open>\<open>stepperproc = int(ceil(nsteps / nproc))\<close>, a true division.\<close>

definition stepperproc :: "int \<Rightarrow> int \<Rightarrow> int" where
  "stepperproc nsteps np = \<lceil>(of_int nsteps :: rat) / of_int np\<rceil>"

text \<open>The slices the worker processes are started on, one process per slice.\<close>

definition worker_slices :: "'u timeseries \<Rightarrow> rat \<Rightarrow> int \<Rightarrow> int \<Rightarrow> 'u timeseries list" where
  "worker_slices timeseries stride nsteps minprocesssize =
     (let np = nproc nsteps minprocesssize;
          spp = stepperproc nsteps np;
          nsamp = of_int spp * ts_sample_rate timeseries * stride
      in map (\<lambda>i. getslice timeseries (of_nat i * nsamp) ((of_nat i + 1) * nsamp))
           [0..<nat np])"

text \<open>
  \<open>data = [queue.get() for p in processlist]\<close>: the coordinator takes one result per
  process off the queue, in the order the workers deliver them; \<open>arrival\<close> is that order,
  a permutation of the workers' indices. A worker that raises puts nothing on the queue
  and the coordinator waits forever.
\<close>

definition collect ::
  "nat list \<Rightarrow> (error + 'u spectrogram) list \<Rightarrow> error + 'u spectrogram list" where
  "collect arrival results =
     (if list_ex isl results then Inl Hang
      else Inr (map (\<lambda>k. projr (results ! k)) arrival))"

text \<open>
  The window and the FFT plan after \<open>try: from lal import lal ... else: ...\<close>: with
  LAL at hand a missing window or plan is generated for \<open>nFFT\<close> samples.
\<close>

definition lal_window :: "('u, 'w, 'p) collab \<Rightarrow> 'u timeseries \<Rightarrow> int \<Rightarrow> 'w option \<Rightarrow> 'w option" where
  "lal_window C timeseries nFFT window =
     (case lal C of
        None \<Rightarrow> window
      | Some gen \<Rightarrow>
          (case window of
             None \<Rightarrow> Some (fst gen nFFT (ts_dtype timeseries))
           | Some w \<Rightarrow> Some w))"

definition lal_plan :: "('u, 'w, 'p) collab \<Rightarrow> 'u timeseries \<Rightarrow> int \<Rightarrow> 'p option \<Rightarrow> 'p option" where
  "lal_plan C timeseries nFFT plan =
     (case lal C of
        None \<Rightarrow> plan
      | Some gen \<Rightarrow>
          (case plan of
             None \<Rightarrow> Some (snd gen nFFT (ts_dtype timeseries))
           | Some p \<Rightarrow> Some p))"

text \<open>
  The multi-process branch up to the sorted list of partial Spectrograms: one worker per
  slice, each running \<open>_from_timeseries\<close> on its slice, the results collected and sorted
  by epoch (Python's sort is stable, as \<open>sort_key\<close> is).
\<close>

definition partials ::
  "('u, 'w, 'p) collab \<Rightarrow> nat list \<Rightarrow> 'u timeseries \<Rightarrow> rat \<Rightarrow> rat \<Rightarrow> rat \<Rightarrow> string \<Rightarrow>
   'w option \<Rightarrow> 'p option \<Rightarrow> int \<Rightarrow> int \<Rightarrow> error + 'u spectrogram list" where
  "partials C arrival timeseries stride fftlength fftstride method window plan nsteps
      minprocesssize =
     (let slices = worker_slices timeseries stride nsteps minprocesssize;
          results = map (\<lambda>ts. private_from_timeseries C ts stride (Some fftlength)
                                 (Some fftstride) method window plan) slices
      in case collect arrival results of
           Inl e \<Rightarrow> Inl e
         | Inr data \<Rightarrow> Inr (sort_key sg_epoch data))"

text \<open>
  \<open>from_timeseries\<close>: the number of worker processes started, and the outcome. The
  queue is created with room for \<open>maxprocesses\<close> results; the coordinator takes every
  result off it, so its size does not show in the outcome.
\<close>

definition from_timeseries ::
  "('u, 'w, 'p) collab \<Rightarrow> nat list \<Rightarrow> 'u timeseries \<Rightarrow> rat \<Rightarrow> rat option \<Rightarrow> rat option \<Rightarrow>
   string \<Rightarrow> 'w option \<Rightarrow> 'p option \<Rightarrow> int \<Rightarrow> int \<Rightarrow> nat \<times> (error + 'u spectrogram)" where
  "from_timeseries C arrival timeseries stride fftlength fftstride method window plan
      maxprocesses minprocesssize =
     (let fftlength' = (case fftlength of None \<Rightarrow> stride | Some f \<Rightarrow> f);
          fftstride' = (case fftstride of None \<Rightarrow> fftlength' | Some f \<Rightarrow> f);
          nFFT = py_int (fftlength' * ts_sample_rate timeseries)
      in if stride * ts_sample_rate timeseries = 0 then (0, Inl ZeroDivisionError)
         else
           let nsteps = \<lfloor>of_nat (length (ts_data timeseries))
                           / (stride * ts_sample_rate timeseries)\<rfloor>;
               window' = lal_window C timeseries nFFT window;
               plan' = lal_plan C timeseries nFFT plan
           in if maxprocesses = 1 \<or> nsteps = 0
              then (0, private_from_timeseries C timeseries stride (Some fftlength')
                         (Some fftstride') method window' None)
              else if minprocesssize = 0 then (0, Inl ZeroDivisionError)
              else
                (length (worker_slices timeseries stride nsteps minprocesssize),
                 case partials C arrival timeseries stride fftlength' fftstride' method
                        window' plan' nsteps minprocesssize of
                   Inl e \<Rightarrow> Inl e
                 | Inr specs \<Rightarrow> Inr (join specs)))"

subsection \<open>Time spans\<close>


subsection \<open>Concrete collaborators and series\<close>

text \<open>
  A stand-in for the collaborators, to run the builders on concrete series. Its spectrum
  has one value per frequency bin: the sum of the samples of the series it is computed
  from, plus the number of the FFT plan when one is passed, so that a run shows which
  samples and which plan reached \<open>psd\<close>. Dividing the unit \<open>counts\<close> by Hertz is
  undefined; LAL is not installed.
\<close>

definition probe :: "(string, nat, nat) collab" where
  "probe =
     \<lparr>psd = (\<lambda>ts fftlength fftstride method window plan.
               Inr (replicate (nat (\<lfloor>fftlength * ts_sample_rate ts / 2\<rfloor> + 1))
                      (sum_list (ts_data ts)
                         + (case plan of None \<Rightarrow> 0 | Some k \<Rightarrow> of_nat k)))),
      per_hertz = (\<lambda>u. if u = ''counts'' then None else Some (u @ '' / Hz'')),
      inv_hertz = ''1 / Hz'',
      lal = None\<rparr>"

definition series :: "rat list \<Rightarrow> rat \<Rightarrow> string \<Rightarrow> string timeseries" where
  "series xs rate u =
     \<lparr>ts_data = xs, ts_sample_rate = rate, ts_epoch = 0, ts_unit = u,
      ts_channel = ''X1:TEST'', ts_dtype = ''float64''\<rparr>"

section \<open>Auxiliary facts\<close>

subsection \<open>Slices\<close>






lemma getslice_fields:
  "ts_sample_rate (getslice ts a b) = ts_sample_rate ts"
  "ts_unit (getslice ts a b) = ts_unit ts"
  "ts_channel (getslice ts a b) = ts_channel ts"
  "ts_dtype (getslice ts a b) = ts_dtype ts"
  by (simp_all add: getslice_def Let_def)



subsection \<open>The loop and the single-process builder\<close>

lemma stride_loop_Inr_iff:
  "stride_loop row steps out = Inr out' \<longleftrightarrow>
     list_all (\<lambda>s. \<not> isl (row s)) steps \<and>
     out' = fold (\<lambda>s acc. acc[s := projr (row s)]) steps out"
proof (induction steps arbitrary: out)
  case Nil
  show ?case by auto
next
  case (Cons s steps)
  show ?case
  proof (cases "row s")
    case (Inl e)
    then show ?thesis by simp
  next
    case (Inr r)
    then show ?thesis using Cons.IH [of "out[s := r]"] by simp
  qed
qed

lemma fold_update_upt:
  "k \<le> length out \<Longrightarrow>
   fold (\<lambda>s acc. acc[s := f s]) [0..<k] out = map f [0..<k] @ drop k out"
proof (induction k)
  case 0
  show ?case by simp
next
  case (Suc k)
  then have "k < length out" by simp
  have "fold (\<lambda>s acc. acc[s := f s]) [0..<Suc k] out
        = (map f [0..<k] @ drop k out)[k := f k]"
    using Suc by simp
  also have "\<dots> = map f [0..<k] @ (drop k out)[0 := f k]"
    by (simp add: list_update_append)
  also have "(drop k out)[0 := f k] = f k # drop (Suc k) out"
    using \<open>k < length out\<close> by (simp add: Cons_nth_drop_Suc [symmetric])
  finally show ?case by simp
qed

lemma stride_loop_upt:
  "length out = n \<Longrightarrow>
   stride_loop row [0..<n] out = Inr out' \<longleftrightarrow>
     (\<forall>s<n. \<not> isl (row s)) \<and> out' = map (\<lambda>s. projr (row s)) [0..<n]"
  by (auto simp add: stride_loop_Inr_iff fold_update_upt list_all_iff)

lemma pft_defaults:
  "private_from_timeseries C ts s fl fs m w p =
   private_from_timeseries C ts s
     (Some (case fl of None \<Rightarrow> s | Some f \<Rightarrow> f))
     (Some (case fs of None \<Rightarrow> (case fl of None \<Rightarrow> s | Some f \<Rightarrow> f) | Some g \<Rightarrow> g)) m w p"
  by (simp add: private_from_timeseries_def)

lemma pft_Some_iff:
  "private_from_timeseries C ts s (Some f) (Some g) m w p = Inr out \<longleftrightarrow>
     f \<noteq> 0 \<and> s * ts_sample_rate ts \<noteq> 0 \<and>
     0 \<le> \<lfloor>of_nat (length (ts_data ts)) / (s * ts_sample_rate ts)\<rfloor> \<and>
     0 \<le> \<lfloor>f * ts_sample_rate ts / 2\<rfloor> + 1 \<and>
     (\<forall>k < nat \<lfloor>of_nat (length (ts_data ts)) / (s * ts_sample_rate ts)\<rfloor>.
        \<not> isl (step_row C ts (s * ts_sample_rate ts) f g m w p
                  (nat (\<lfloor>f * ts_sample_rate ts / 2\<rfloor> + 1)) k)) \<and>
     out = \<lparr>sg_data = map (\<lambda>k. projr (step_row C ts (s * ts_sample_rate ts) f g m w p
                                      (nat (\<lfloor>f * ts_sample_rate ts / 2\<rfloor> + 1)) k))
                        [0..<nat \<lfloor>of_nat (length (ts_data ts)) / (s * ts_sample_rate ts)\<rfloor>],
            sg_nfreqs = nat (\<lfloor>f * ts_sample_rate ts / 2\<rfloor> + 1),
            sg_channel = ts_channel ts,
            sg_epoch = ts_epoch ts,
            sg_f0 = 0, sg_df = 1 / f, sg_dt = s,
            sg_unit = (if \<lfloor>of_nat (length (ts_data ts)) / (s * ts_sample_rate ts)\<rfloor> = 0 then None
                       else Some (case per_hertz C (ts_unit ts) of
                                    None \<Rightarrow> inv_hertz C | Some u \<Rightarrow> u))\<rparr>"
  (is "?lhs = Inr out \<longleftrightarrow> ?F \<and> ?S \<and> ?N \<and> ?Q \<and> ?R \<and> out = ?out")
proof (cases "?F \<and> ?S \<and> ?N \<and> ?Q")
  case False
  then show ?thesis
    by (auto simp add: private_from_timeseries_def Let_def)
next
  case True
  let ?n = "\<lfloor>of_nat (length (ts_data ts)) / (s * ts_sample_rate ts)\<rfloor>"
  show ?thesis
  proof (cases "?n = 0")
    case z: True
    then show ?thesis using True
      by (auto simp add: private_from_timeseries_def Let_def)
  next
    case nz: False
    let ?nf = "nat (\<lfloor>f * ts_sample_rate ts / 2\<rfloor> + 1)"
    let ?row = "step_row C ts (s * ts_sample_rate ts) f g m w p ?nf"
    let ?zeros = "replicate (nat ?n) (replicate ?nf (0::rat))"
    have len: "length ?zeros = nat ?n"
      by simp
    have pft: "?lhs = (case stride_loop ?row [0..<nat ?n] ?zeros of
                         Inl e \<Rightarrow> Inl e
                       | Inr rows \<Rightarrow> Inr (?out\<lparr>sg_data := rows\<rparr>))"
      using True nz by (simp add: private_from_timeseries_def Let_def split: sum.splits)
    show ?thesis
    proof (cases "stride_loop ?row [0..<nat ?n] ?zeros")
      case (Inl e)
      then have "\<not> (\<forall>k<nat ?n. \<not> isl (?row k))"
        using stride_loop_upt [OF len, of ?row] by auto
      then show ?thesis using Inl pft by simp
    next
      case (Inr rows)
      then have "(\<forall>k<nat ?n. \<not> isl (?row k)) \<and> rows = map (\<lambda>k. projr (?row k)) [0..<nat ?n]"
        using stride_loop_upt [OF len, of ?row rows] by simp
      then show ?thesis using Inr pft True by auto
    qed
  qed
qed

lemma setitem_row_length: "setitem_row nf d = Inr r \<Longrightarrow> length r = nf"
  by (auto simp add: setitem_row_def split: if_splits)

lemma step_row_length:
  "\<not> isl (step_row C ts S f g m w p nf k) \<Longrightarrow> length (projr (step_row C ts S f g m w p nf k)) = nf"
  by (cases "step_row C ts S f g m w p nf k")
     (auto simp add: step_row_def Let_def split: sum.splits dest: setitem_row_length)

lemma pft_shape:
  assumes "private_from_timeseries C ts s fl fs m w p = Inr out"
  shows "sg_dt out = s"
    and "sg_df out = 1 / (case fl of None \<Rightarrow> s | Some f \<Rightarrow> f)"
    and "sg_f0 out = 0"
    and "sg_epoch out = ts_epoch ts"
    and "int (length (sg_data out)) = \<lfloor>of_nat (length (ts_data ts)) / (s * ts_sample_rate ts)\<rfloor>"
    and "int (sg_nfreqs out) = \<lfloor>(case fl of None \<Rightarrow> s | Some f \<Rightarrow> f) * ts_sample_rate ts / 2\<rfloor> + 1"
    and "list_all (\<lambda>r. length r = sg_nfreqs out) (sg_data out)"
  using assms
  by (auto simp add: pft_defaults [of C ts s fl fs] pft_Some_iff list_all_iff step_row_length)

subsection \<open>The wrapper\<close>

lemma length_worker_slices:
  "length (worker_slices ts s n m) = nat (max 1 (n div m))"
  by (simp add: worker_slices_def nproc_def Let_def)

lemma from_timeseries_delegates:
  assumes "maxprocesses = 1 \<or> \<lfloor>of_nat (length (ts_data ts)) / (stride * ts_sample_rate ts)\<rfloor> = 0"
  shows "from_timeseries C arrival ts stride fftlength fftstride method window plan
           maxprocesses minprocesssize
         = (0, private_from_timeseries C ts stride fftlength fftstride method
                 (lal_window C ts
                    (py_int ((case fftlength of None \<Rightarrow> stride | Some f \<Rightarrow> f) * ts_sample_rate ts))
                    window)
                 None)"
proof (cases "stride * ts_sample_rate ts = 0")
  case True
  then show ?thesis
    by (simp add: from_timeseries_def private_from_timeseries_def Let_def)
next
  case False
  then show ?thesis using assms
    by (simp add: from_timeseries_def Let_def pft_defaults [of C ts stride fftlength fftstride])
qed

subsection \<open>Blocks of steps\<close>







subsection \<open>Workers on slices\<close>
















subsection \<open>Time spans of the partial Spectrograms\<close>




subsection \<open>The samples of a step and of a worker\<close>






subsection \<open>Runs of the concrete collaborators\<close>

lemma step_row_probe:
  "step_row probe ts S f g m w p (nat (\<lfloor>f * ts_sample_rate ts / 2\<rfloor> + 1)) k
   = Inr (replicate (nat (\<lfloor>f * ts_sample_rate ts / 2\<rfloor> + 1))
            (sum_list (ts_data (getslice ts (S * of_nat k) (S * of_nat k + S)))
               + (case p of None \<Rightarrow> 0 | Some j \<Rightarrow> of_nat j)))"
  by (simp add: step_row_def Let_def probe_def getslice_fields setitem_row_def)

lemma getslice_zeros:
  "sum_list (ts_data (getslice (series (replicate n 0) r u) a b)) = 0"
  by (simp add: getslice_def Let_def series_def sum_list_replicate)

lemma probe_run_1000:
  "private_from_timeseries probe (series (replicate 1000 0) 100 ''m'') 2 (Some 1) None ''welch'' None None
     = Inr \<lparr>sg_data = replicate 5 (replicate 51 0), sg_nfreqs = 51, sg_channel = ''X1:TEST'',
            sg_epoch = 0, sg_f0 = 0, sg_df = 1, sg_dt = 2, sg_unit = Some ''m / Hz''\<rparr>"
proof -
  have rate: "ts_sample_rate (series (replicate 1000 0) 100 ''m'') = 100"
    and len: "length (ts_data (series (replicate 1000 0) 100 ''m'')) = 1000"
    and meta: "ts_channel (series (replicate 1000 0) 100 ''m'') = ''X1:TEST''"
      "ts_epoch (series (replicate 1000 0) 100 ''m'') = 0"
      "ts_unit (series (replicate 1000 0) 100 ''m'') = ''m''"
    by (simp_all add: series_def)
  have nf: "nat (\<lfloor>(1::rat) * 100 / 2\<rfloor> + 1) = 51" by simp
  have row: "step_row probe (series (replicate 1000 0) 100 ''m'') 200 1 1 ''welch'' None None 51 k
             = Inr (replicate 51 0)" for k
    using step_row_probe [of "series (replicate 1000 0) 100 ''m''" 200 1 1 "''welch''" None None k]
    by (simp add: rate getslice_zeros)
  have units: "per_hertz probe ''m'' = Some ''m / Hz''"
    by (simp add: probe_def)
  show ?thesis
    by (simp add: pft_defaults [of _ _ _ "Some 1" None] pft_Some_iff rate len meta row units map_replicate_const)
qed

lemma floor_half: "\<lfloor>(1::rat) / 2\<rfloor> = 0"
  by (simp add: floor_eq_iff)


lemma probe_run_4:
  "private_from_timeseries probe (series [1, 2, 3, 4] 1 u) 2 None None ''welch'' None p
     = Inr \<lparr>sg_data = [[3 + (case p of None \<Rightarrow> 0 | Some j \<Rightarrow> of_nat j),
                         3 + (case p of None \<Rightarrow> 0 | Some j \<Rightarrow> of_nat j)],
                        [7 + (case p of None \<Rightarrow> 0 | Some j \<Rightarrow> of_nat j),
                         7 + (case p of None \<Rightarrow> 0 | Some j \<Rightarrow> of_nat j)]],
            sg_nfreqs = 2, sg_channel = ''X1:TEST'',
            sg_epoch = 0, sg_f0 = 0, sg_df = 1 / 2, sg_dt = 2,
            sg_unit = Some (case per_hertz probe u of None \<Rightarrow> inv_hertz probe | Some v \<Rightarrow> v)\<rparr>"
proof -
  have nf: "nat (\<lfloor>(2::rat) * ts_sample_rate (series [1, 2, 3, 4] 1 u) / 2\<rfloor> + 1) = 2"
    by (simp add: series_def)
  have row: "step_row probe (series [1, 2, 3, 4] 1 u) 2 2 2 ''welch'' None p 2 k
      = Inr (replicate 2 (sum_list (ts_data (getslice (series [1, 2, 3, 4] 1 u) (2 * of_nat k) (2 * of_nat k + 2)))
              + (case p of None \<Rightarrow> 0 | Some j \<Rightarrow> of_nat j)))" for k
    using step_row_probe [where ts = "series [1, 2, 3, 4] 1 u" and S = 2 and f = 2 and g = 2
            and m = "''welch''" and w = None and p = p and k = k]
    by (simp only: nf)
  have s0: "sum_list (ts_data (getslice (series [1, 2, 3, 4] 1 u) (2 * of_nat 0) (2 * of_nat 0 + 2))) = 3"
    and s1: "sum_list (ts_data (getslice (series [1, 2, 3, 4] 1 u) (2 * of_nat (Suc 0)) (2 * of_nat (Suc 0) + 2))) = 7"
    by (simp_all add: getslice_def Let_def series_def py_int_def py_index_def)
  have meta: "ts_sample_rate (series [1, 2, 3, 4] 1 u) = 1"
    "length (ts_data (series [1, 2, 3, 4] 1 u)) = 4"
    "ts_channel (series [1, 2, 3, 4] 1 u) = ''X1:TEST''"
    "ts_epoch (series [1, 2, 3, 4] 1 u) = 0"
    "ts_unit (series [1, 2, 3, 4] 1 u) = u"
    by (simp_all add: series_def)
  have two: "[0..<2] = [0, Suc 0]" by (simp add: upt_conv_Cons)
  have lt2: "(\<forall>k<2. P k) \<longleftrightarrow> P 0 \<and> P (Suc 0)" for P :: "nat \<Rightarrow> bool"
    by (auto simp add: less_2_cases_iff)
  have rep2: "replicate 2 x = [x, x]" for x :: rat
    by (simp add: numeral_2_eq_2)
  show ?thesis
    by (simp add: pft_defaults [of _ _ _ None None] pft_Some_iff meta row two lt2 s0 s1 rep2
          del: of_nat_Suc of_nat_0)
qed



lemma getslice_zero_set:
  assumes "set (ts_data ts) \<subseteq> {0}"
  shows "set (ts_data (getslice ts a b)) \<subseteq> {0}"
proof -
  have "set (ts_data (getslice ts a b)) \<subseteq> set (ts_data ts)"
    using set_drop_subset set_take_subset by (fastforce simp add: getslice_def Let_def)
  then show ?thesis using assms by auto
qed







lemma fractional_nsteps: "\<lfloor>(9::rat) / (3 / 2)\<rfloor> = 6"
  by simp





section \<open>The claims\<close>

subsection \<open>C3: shape and resolution of the output\<close>

text \<open>
  C3. For a series of L samples at sample rate R, a stride s and an FFT length f, the
  Spectrogram the builder returns has \<open>dt = s\<close>, \<open>df = 1/f\<close>,
  \<open>floor(L / (s*R))\<close> rows and \<open>floor(f*R/2) + 1\<close> columns (every row has that
  many values); an omitted FFT length is the stride. The 1000-sample series at 100 Hz with
  a stride of 2 s and an FFT length of 1 s gives the shape (5, 51).
\<close>

theorem C3_output_shape:
  assumes "private_from_timeseries C ts stride fftlength fftstride method window plan = Inr out"
  shows "sg_dt out = stride
       \<and> sg_df out = 1 / (case fftlength of None \<Rightarrow> stride | Some f \<Rightarrow> f)
       \<and> int (length (sg_data out))
           = \<lfloor>of_nat (length (ts_data ts)) / (stride * ts_sample_rate ts)\<rfloor>
       \<and> int (sg_nfreqs out)
           = \<lfloor>(case fftlength of None \<Rightarrow> stride | Some f \<Rightarrow> f) * ts_sample_rate ts / 2\<rfloor> + 1
       \<and> list_all (\<lambda>r. length r = sg_nfreqs out) (sg_data out)"
  using pft_shape [OF assms] by simp

theorem C3_output_shape_witness:
  "map_sum id (\<lambda>out. (length (sg_data out), sg_nfreqs out, sg_dt out, sg_df out))
     (private_from_timeseries probe (series (replicate 1000 0) 100 ''m'') 2 (Some 1) None
        ''welch'' None None)
   = Inr (5, 51, 2, 1)"
  using C3_output_shape [OF probe_run_1000] by (simp add: probe_run_1000)

subsection \<open>C10: omitted FFT parameters\<close>

text \<open>
  C10. A call without \<open>fftlength\<close> gives what the same call with \<open>fftlength = stride\<close>
  gives, and a call without \<open>fftstride\<close> what the same call with \<open>fftstride\<close> equal to
  the FFT length in force gives, in the single-process builder and in the wrapper alike.
\<close>

theorem C10_omitted_fft_parameters:
  "private_from_timeseries C ts stride None fftstride method window plan
     = private_from_timeseries C ts stride (Some stride) fftstride method window plan
   \<and> private_from_timeseries C ts stride fftlength None method window plan
     = private_from_timeseries C ts stride fftlength
         (Some (case fftlength of None \<Rightarrow> stride | Some f \<Rightarrow> f)) method window plan
   \<and> from_timeseries C arrival ts stride None fftstride method window plan maxprocesses minprocesssize
     = from_timeseries C arrival ts stride (Some stride) fftstride method window plan
         maxprocesses minprocesssize
   \<and> from_timeseries C arrival ts stride fftlength None method window plan maxprocesses minprocesssize
     = from_timeseries C arrival ts stride fftlength
         (Some (case fftlength of None \<Rightarrow> stride | Some f \<Rightarrow> f)) method window plan
         maxprocesses minprocesssize"
  by (simp add: private_from_timeseries_def from_timeseries_def)

subsection \<open>C4: series shorter than one stride\<close>

text \<open>
  C4. For a series shorter than one stride (\<open>nsteps = 0\<close>), with an FFT length that
  is not zero and gives a column count that is not negative, the builder returns a
  Spectrogram of zero rows with the epoch of the series, \<open>dt = stride\<close>,
  \<open>df = 1/fftlength\<close> and \<open>f0 = 0\<close>. Its unit is not set: the function returns
  before the statement that assigns the unit, which only the runs with at least one row
  reach. The claim asks for the unit to be set on this path as well.
\<close>

theorem C4_zero_rows_unit_unset:
  assumes "stride * ts_sample_rate ts \<noteq> 0"
    and "\<lfloor>of_nat (length (ts_data ts)) / (stride * ts_sample_rate ts)\<rfloor> = 0"
    and "(case fftlength of None \<Rightarrow> stride | Some f \<Rightarrow> f) \<noteq> 0"
    and "0 \<le> \<lfloor>(case fftlength of None \<Rightarrow> stride | Some f \<Rightarrow> f) * ts_sample_rate ts / 2\<rfloor> + 1"
  shows "private_from_timeseries C ts stride fftlength fftstride method window plan
         = Inr \<lparr>sg_data = [],
                sg_nfreqs = nat (\<lfloor>(case fftlength of None \<Rightarrow> stride | Some f \<Rightarrow> f)
                                    * ts_sample_rate ts / 2\<rfloor> + 1),
                sg_channel = ts_channel ts, sg_epoch = ts_epoch ts, sg_f0 = 0,
                sg_df = 1 / (case fftlength of None \<Rightarrow> stride | Some f \<Rightarrow> f),
                sg_dt = stride, sg_unit = None\<rparr>"
  using assms
  by (simp add: pft_defaults [of C ts stride fftlength fftstride] pft_Some_iff)

theorem C4_zero_rows_unit_unset_witness:
  "private_from_timeseries probe (series [0] 1 ''m'') 2 None None ''welch'' None None
     = Inr \<lparr>sg_data = [], sg_nfreqs = 2, sg_channel = ''X1:TEST'', sg_epoch = 0, sg_f0 = 0,
            sg_df = 1 / 2, sg_dt = 2, sg_unit = None\<rparr>
   \<and> per_hertz probe (ts_unit (series [0] 1 ''m'')) = Some ''m / Hz''"
proof -
  have run: "private_from_timeseries probe (series [0] 1 ''m'') 2 None None ''welch'' None None
             = Inr \<lparr>sg_data = [],
                    sg_nfreqs = nat (\<lfloor>(case None of None \<Rightarrow> 2 | Some f \<Rightarrow> f)
                                        * ts_sample_rate (series [0] 1 ''m'') / 2\<rfloor> + 1),
                    sg_channel = ts_channel (series [0] 1 ''m''),
                    sg_epoch = ts_epoch (series [0] 1 ''m''), sg_f0 = 0,
                    sg_df = 1 / (case None of None \<Rightarrow> 2 | Some f \<Rightarrow> f),
                    sg_dt = 2, sg_unit = None\<rparr>"
    by (rule C4_zero_rows_unit_unset) (simp_all add: series_def floor_half)
  have units: "per_hertz probe (ts_unit (series [0] 1 ''m'')) = Some ''m / Hz''"
    by (simp add: probe_def series_def)
  show ?thesis
    by (simp add: run units) (simp add: series_def)
qed

subsection \<open>C7: delegation to the single-process builder\<close>

text \<open>
  C7. With \<open>maxprocesses = 1\<close>, or with no full stride in the series, \<open>from_timeseries\<close>
  starts no worker process and returns what \<open>_from_timeseries\<close> returns for the same
  series, stride, FFT length, FFT stride, method and window (the window generated with LAL
  when none was given). The FFT plan is not passed on: the builder runs with
  \<open>plan = None\<close>, whatever plan the caller gave or LAL generated, while the
  multi-process branch passes the plan to every worker. The claim asks for the same plan.
\<close>

theorem C7_delegation_drops_plan:
  assumes "maxprocesses = 1 \<or> \<lfloor>of_nat (length (ts_data ts)) / (stride * ts_sample_rate ts)\<rfloor> = 0"
  shows "from_timeseries C arrival ts stride fftlength fftstride method window plan
           maxprocesses minprocesssize
         = (0, private_from_timeseries C ts stride fftlength fftstride method
                 (lal_window C ts
                    (py_int ((case fftlength of None \<Rightarrow> stride | Some f \<Rightarrow> f) * ts_sample_rate ts))
                    window)
                 None)"
  using assms by (rule from_timeseries_delegates)

theorem C7_delegation_drops_plan_witness:
  "from_timeseries probe [] (series [1, 2, 3, 4] 1 ''m'') 2 None None ''welch'' None (Some 5) 1 500
     = (0, Inr \<lparr>sg_data = [[3, 3], [7, 7]], sg_nfreqs = 2, sg_channel = ''X1:TEST'',
                 sg_epoch = 0, sg_f0 = 0, sg_df = 1 / 2, sg_dt = 2, sg_unit = Some ''m / Hz''\<rparr>)
   \<and> private_from_timeseries probe (series [1, 2, 3, 4] 1 ''m'') 2 None None ''welch'' None (Some 5)
     = Inr \<lparr>sg_data = [[8, 8], [12, 12]], sg_nfreqs = 2, sg_channel = ''X1:TEST'',
            sg_epoch = 0, sg_f0 = 0, sg_df = 1 / 2, sg_dt = 2, sg_unit = Some ''m / Hz''\<rparr>"
proof -
  have deleg: "from_timeseries probe [] (series [1, 2, 3, 4] 1 ''m'') 2 None None ''welch'' None
                 (Some 5) 1 500
               = (0, private_from_timeseries probe (series [1, 2, 3, 4] 1 ''m'') 2 None None ''welch''
                       (lal_window probe (series [1, 2, 3, 4] 1 ''m'')
                          (py_int ((case None of None \<Rightarrow> 2 | Some f \<Rightarrow> f)
                                     * ts_sample_rate (series [1, 2, 3, 4] 1 ''m'')))
                          None)
                       None)"
    by (rule C7_delegation_drops_plan) simp
  have win: "lal_window probe ts n None = None" for ts :: "string timeseries" and n
    by (simp add: lal_window_def probe_def)
  have units: "per_hertz probe ''m'' = Some ''m / Hz''"
    by (simp add: probe_def)
  show ?thesis
    by (simp add: deleg win probe_run_4 units)
qed

subsection \<open>C8: the unit of the output\<close>




subsection \<open>C9: the number of worker processes\<close>

text \<open>
  C9. With \<open>maxprocesses > 1\<close>, at least one full stride and a \<open>minprocesssize\<close> other
  than zero, \<open>from_timeseries\<close> starts exactly \<open>max(1, nsteps // minprocesssize)\<close>
  worker processes, and its result is the same for every \<open>maxprocesses > 1\<close>: the
  parameter does not bound the number of workers. With 3000 steps, a
  \<open>minprocesssize\<close> of 500 and \<open>maxprocesses = 2\<close>, six workers are started.
\<close>

theorem C9_worker_count:
  assumes "1 < maxprocesses" and "minprocesssize \<noteq> 0"
    and "stride * ts_sample_rate ts \<noteq> 0"
    and "0 < \<lfloor>of_nat (length (ts_data ts)) / (stride * ts_sample_rate ts)\<rfloor>"
  shows "fst (from_timeseries C arrival ts stride fftlength fftstride method window plan
                maxprocesses minprocesssize)
           = nat (max 1 (\<lfloor>of_nat (length (ts_data ts)) / (stride * ts_sample_rate ts)\<rfloor>
                           div minprocesssize))
       \<and> (\<forall>maxprocesses'. 1 < maxprocesses' \<longrightarrow>
             from_timeseries C arrival ts stride fftlength fftstride method window plan
               maxprocesses' minprocesssize
             = from_timeseries C arrival ts stride fftlength fftstride method window plan
                 maxprocesses minprocesssize)"
proof -
  have "\<lfloor>of_nat (length (ts_data ts)) / (stride * ts_sample_rate ts)\<rfloor> \<noteq> 0"
    using assms(4) by linarith
  moreover have "maxprocesses \<noteq> 1"
    using assms(1) by simp
  ultimately show ?thesis
    using assms(2,3) by (simp add: from_timeseries_def Let_def length_worker_slices)
qed

theorem C9_worker_count_witness:
  "fst (from_timeseries probe [] (series (replicate 3000 0) 1 ''m'') 1 None None ''welch''
          None None 2 500) = 6
   \<and> (2::int) < 6"
  using C9_worker_count [of 2 500 1 "series (replicate 3000 0) 1 ''m''" probe "[]" None None
          "''welch''" None None, THEN conjunct1]
  by (simp add: series_def)

subsection \<open>C1: the multi-process result against the single-process result\<close>




subsection \<open>C2: the partial Spectrograms tile the analysed range\<close>




subsection \<open>C5: every row is the spectrum of its own stride\<close>



subsection \<open>C6: the partition of the series over the workers\<close>




end
